theory Spec2Isabelle
  imports Main "HOL-Library.Word"
begin

section \<open>The Kubernetes layer of azp-agent-autoscaler (pkg/kubernetes/kubernetes.go)\<close>

text \<open>
  The file under verification is a thin layer over the Kubernetes client library: it
  caches one client handle, resolves a workload, checks for a conflicting
  HorizontalPodAutoscaler, rescales a workload and lists its pods.  Every function is
  modelled as a state transformer.  The state holds the package variable
  \<^verbatim>\<open>k8sClient\<close> and the sequence of calls made to the outside so far; what the
  outside answers is a parameter of the model (\<open>env\<close>), and an answer may depend on
  everything that was called before, so the cluster may change between two calls.

  A channel is the list of messages sent on it, oldest first; a send appends one message
  (the blocking of an unbuffered channel is not modelled).  A pointer argument
  (\<^verbatim>\<open>*Workload\<close>) is taken to refer to a live object.  A nil slice is the empty list.
\<close>

subsection \<open>Values of the client library\<close>

text \<open>Go's \<^verbatim>\<open>error\<close>: a value that carries its message, \<^verbatim>\<open>err.Error()\<close>.\<close>

datatype error = Errorf (Error: string)

text \<open>
  \<^verbatim>\<open>*rest.Config\<close> and \<^verbatim>\<open>*k8s.Clientset\<close> are opaque to this package; the number only
  tells two of them apart.
\<close>

datatype Config = Config nat

datatype Clientset = Clientset nat

type_synonym int32 = "32 word"

text \<open>\<^verbatim>\<open>metav1.LabelSelector\<close>, as its match-labels; only the library formats it.\<close>

type_synonym LabelSelector = "(string \<times> string) list"

text \<open>
  \<^verbatim>\<open>autoscalingv1.Scale\<close>: the namespace, name and resource version of its object
  metadata, \<^verbatim>\<open>Spec.Replicas\<close> and \<^verbatim>\<open>Status.Replicas\<close>.  This package reads and
  writes \<^verbatim>\<open>Spec.Replicas\<close> only.
\<close>

record Scale =
  Scale_Namespace :: string
  Scale_Name :: string
  Scale_ResourceVersion :: string
  Spec_Replicas :: int32
  Status_Replicas :: int32

text \<open>\<^verbatim>\<open>autoscalingv1.CrossVersionObjectReference\<close>, reached as \<^verbatim>\<open>hpa.Spec.ScaleTargetRef\<close>.\<close>

record CrossVersionObjectReference =
  ref_Kind :: string
  ref_Name :: string

record HorizontalPodAutoscaler =
  Spec_ScaleTargetRef :: CrossVersionObjectReference

text \<open>\<^verbatim>\<open>corev1.Pod\<close>, by its name.\<close>

datatype Pod = Pod string

text \<open>\<^verbatim>\<open>appsv1.StatefulSet\<close>: the object's namespace, name and pod selector.\<close>

record StatefulSet =
  sts_Namespace :: string
  sts_Name :: string
  sts_Selector :: LabelSelector

text \<open>\<^verbatim>\<open>corev1.EnvVar\<close>; \<^verbatim>\<open>ValueFrom\<close> is a pointer to an indirect source, named here by a string.\<close>

record EnvVar =
  var_Name :: string
  var_Value :: string
  var_ValueFrom :: "string option"

subsection \<open>The outside: calls and their answers\<close>

text \<open>
  One constructor for each call this package makes to the client library.  The
  namespace of a resource client (\<^verbatim>\<open>StatefulSets(namespace)\<close>) is an argument of the call.
\<close>

datatype call =
    Call_InClusterConfig
  | Call_BuildConfigFromFlags string string
  | Call_NewForConfig Config
  | Call_StatefulSets_Get Clientset string string
  | Call_HorizontalPodAutoscalers_List Clientset string
  | Call_StatefulSets_GetScale Clientset string string
  | Call_StatefulSets_UpdateScale Clientset string string Scale
  | Call_Pods_List Clientset string string

text \<open>
  The answers.  The first argument of a library call is the history: the calls made before
  it.  A call that returns \<^verbatim>\<open>(value, err)\<close> answers \<open>Inl err\<close> or \<open>Inr value\<close>;
  \<^verbatim>\<open>StatefulSets.Get\<close> may also answer nil with no error, which the code tests for.  A list
  call answers the \<^verbatim>\<open>Items\<close> of the list.  \<open>Getenv\<close> reads the process environment (an
  unset variable reads as the empty string).  \<open>EqualFold\<close> and \<open>ToLower\<close> of package
  \<^verbatim>\<open>strings\<close> work on Unicode and are parameters as well, and so is
  \<^verbatim>\<open>FormatLabelSelector\<close>.
\<close>

record env =
  InClusterConfig :: "call list \<Rightarrow> error + Config"
  BuildConfigFromFlags :: "call list \<Rightarrow> string \<Rightarrow> string \<Rightarrow> error + Config"
  NewForConfig :: "call list \<Rightarrow> Config \<Rightarrow> error + Clientset"
  StatefulSets_Get :: "call list \<Rightarrow> Clientset \<Rightarrow> string \<Rightarrow> string \<Rightarrow> error + StatefulSet option"
  HorizontalPodAutoscalers_List ::
    "call list \<Rightarrow> Clientset \<Rightarrow> string \<Rightarrow> error + HorizontalPodAutoscaler list"
  StatefulSets_GetScale :: "call list \<Rightarrow> Clientset \<Rightarrow> string \<Rightarrow> string \<Rightarrow> error + Scale"
  StatefulSets_UpdateScale ::
    "call list \<Rightarrow> Clientset \<Rightarrow> string \<Rightarrow> string \<Rightarrow> Scale \<Rightarrow> error + Scale"
  Pods_List :: "call list \<Rightarrow> Clientset \<Rightarrow> string \<Rightarrow> string \<Rightarrow> error + Pod list"
  Getenv :: "string \<Rightarrow> string"
  EqualFold :: "string \<Rightarrow> string \<Rightarrow> bool"
  ToLower :: "string \<Rightarrow> string"
  FormatLabelSelector :: "LabelSelector \<Rightarrow> string"

text \<open>The state: \<^verbatim>\<open>k8sClient.client\<close> (nil is \<open>None\<close>) and the calls made so far.\<close>

record state =
  client :: "Clientset option"
  calls :: "call list"

text \<open>Making a call: the answer is read at the current history, and the call is recorded.\<close>

definition perform :: "call \<Rightarrow> (call list \<Rightarrow> 'a) \<Rightarrow> state \<Rightarrow> 'a \<times> state" where
  "perform c answer s = (answer (calls s), s\<lparr>calls := calls s @ [c]\<rparr>)"

subsection \<open>Workload and its constructors\<close>

text \<open>
  Modelled from the spec: the type \<^verbatim>\<open>Workload\<close> is declared in another file of the
  package.  The spec gives it a kind, a namespace, a name and a pod selector.
\<close>

record Workload =
  Kind :: string
  Namespace :: string
  Name :: string
  PodSelector :: LabelSelector

text \<open>
  Modelled from the spec: the type \<^verbatim>\<open>WorkloadReturn\<close>, the message of the resolver's
  channel, is declared in another file of the package.  It pairs a workload pointer with an
  error.
\<close>

record WorkloadReturn =
  ret_Workload :: "Workload option"
  ret_Err :: "error option"

text \<open>
  Modelled from the spec: \<^verbatim>\<open>GetWorkloadReturn\<close> is defined in another file of the
  package; it wraps its two arguments into the message.
\<close>

definition GetWorkloadReturn :: "Workload option \<Rightarrow> error option \<Rightarrow> WorkloadReturn" where
  "GetWorkloadReturn resource err = \<lparr>ret_Workload = resource, ret_Err = err\<rparr>"

text \<open>
  Modelled from the spec: \<^verbatim>\<open>GetWorkload\<close> is defined in another file of the package; it
  projects the fetched StatefulSet into a Workload and delivers it with no error.
\<close>

definition GetWorkload :: "StatefulSet \<Rightarrow> WorkloadReturn" where
  "GetWorkload statefulSet =
     GetWorkloadReturn
       (Some \<lparr>Kind = ''StatefulSet'', Namespace = sts_Namespace statefulSet,
              Name = sts_Name statefulSet, PodSelector = sts_Selector statefulSet\<rparr>)
       None"

subsection \<open>getClient\<close>

text \<open>
  Lines 45 to 49, which every successful configuration stage falls through to: build the
  client, store it only when there is no error, return what the constructor returned.
\<close>

definition newClientset :: "env \<Rightarrow> Config \<Rightarrow> state \<Rightarrow> (error + Clientset) \<times> state" where
  "newClientset env k8sConfig s =
     (case perform (Call_NewForConfig k8sConfig) (\<lambda>h. NewForConfig env h k8sConfig) s of
        (Inr clientset, s') \<Rightarrow> (Inr clientset, s'\<lparr>client := Some clientset\<rparr>)
      | (Inl err, s') \<Rightarrow> (Inl err, s'))"

definition getClient :: "env \<Rightarrow> state \<Rightarrow> (error + Clientset) \<times> state" where
  "getClient env s =
     (case client s of
        Some c \<Rightarrow> (Inr c, s)
      | None \<Rightarrow>
         (case perform Call_InClusterConfig (InClusterConfig env) s of
            (Inr k8sConfig, s1) \<Rightarrow> newClientset env k8sConfig s1
          | (Inl _, s1) \<Rightarrow>
             (let kubeconfigEnv = Getenv env ''KUBECONFIG'' in
              case perform (Call_BuildConfigFromFlags '''' kubeconfigEnv)
                     (\<lambda>h. BuildConfigFromFlags env h '''' kubeconfigEnv) s1 of
                (Inr k8sConfig, s2) \<Rightarrow> newClientset env k8sConfig s2
              | (Inl _, s2) \<Rightarrow>
                 (let home = Getenv env ''HOME'';
                      home = (if home = '''' then Getenv env ''USERPROFILE'' else home);
                      path = home @ ''/.kube/config''
                  in case perform (Call_BuildConfigFromFlags '''' path)
                            (\<lambda>h. BuildConfigFromFlags env h '''' path) s2 of
                       (Inr k8sConfig, s3) \<Rightarrow> newClientset env k8sConfig s3
                     | (Inl err, s3) \<Rightarrow>
                         (Inl (Errorf (''Error initializing Kubernetes config: '' @ Error err)),
                          s3)))))"

subsection \<open>GetK8sWorkload\<close>

definition getStatefulSet :: "env \<Rightarrow> string \<Rightarrow> string \<Rightarrow> state \<Rightarrow> WorkloadReturn \<times> state" where
  "getStatefulSet env namespace name s =
     (case getClient env s of
        (Inl err, s1) \<Rightarrow> (GetWorkloadReturn None (Some err), s1)
      | (Inr c, s1) \<Rightarrow>
         (case perform (Call_StatefulSets_Get c namespace name)
                 (\<lambda>h. StatefulSets_Get env h c namespace name) s1 of
            (Inl err, s2) \<Rightarrow> (GetWorkloadReturn None (Some err), s2)
          | (Inr None, s2) \<Rightarrow>
              (GetWorkloadReturn None
                 (Some (Errorf (''Could not find statefulset/'' @ name @ '' in namespace '' @ namespace))),
               s2)
          | (Inr (Some statefulSet), s2) \<Rightarrow> (GetWorkload statefulSet, s2)))"

definition GetK8sWorkload ::
  "env \<Rightarrow> WorkloadReturn list \<Rightarrow> string \<Rightarrow> string \<Rightarrow> string \<Rightarrow> state \<Rightarrow> WorkloadReturn list \<times> state"
where
  "GetK8sWorkload env channel kind namespace name s =
     (if EqualFold env kind ''StatefulSet'' then
        (case getStatefulSet env namespace name s of (r, s') \<Rightarrow> (channel @ [r], s'))
      else
        (channel @ [GetWorkloadReturn None
                      (Some (Errorf (''Resource kind '' @ kind @ '' is not implemented'')))],
         s))"

subsection \<open>VerifyNoHorizontalPodAutoscaler\<close>

text \<open>
  The loop of lines 88 to 93 over \<^verbatim>\<open>hpas.Items\<close>.  It returns the channel and whether the
  function has returned from inside the loop.
\<close>

fun hpa_loop ::
  "env \<Rightarrow> error option list \<Rightarrow> string \<Rightarrow> string \<Rightarrow> HorizontalPodAutoscaler list
     \<Rightarrow> error option list \<times> bool"
where
  "hpa_loop env channel kind name [] = (channel, False)"
| "hpa_loop env channel kind name (hpa # hpas) =
     (if EqualFold env (ref_Kind (Spec_ScaleTargetRef hpa)) kind
         \<and> ref_Name (Spec_ScaleTargetRef hpa) = name
      then
        (channel @ [Some (Errorf (''Error: '' @ ToLower env kind @ ''/'' @ name @
            '' cannot have a HorizontalPodAutoscaler attached for azp-agent-autoscaler to work''))],
         True)
      else hpa_loop env channel kind name hpas)"

definition VerifyNoHorizontalPodAutoscaler ::
  "env \<Rightarrow> error option list \<Rightarrow> string \<Rightarrow> string \<Rightarrow> string \<Rightarrow> state \<Rightarrow> error option list \<times> state"
where
  "VerifyNoHorizontalPodAutoscaler env channel kind namespace name s =
     (case getClient env s of
        (Inl err, s1) \<Rightarrow> (channel @ [Some err], s1)
      | (Inr c, s1) \<Rightarrow>
         (case perform (Call_HorizontalPodAutoscalers_List c namespace)
                 (\<lambda>h. HorizontalPodAutoscalers_List env h c namespace) s1 of
            (Inl err, s2) \<Rightarrow> (channel @ [Some err], s2)
          | (Inr items, s2) \<Rightarrow>
             (case hpa_loop env channel kind name items of
                (channel', True) \<Rightarrow> (channel', s2)
              | (channel', False) \<Rightarrow> (channel' @ [None], s2))))"

subsection \<open>Scale\<close>

text \<open>
  \<^verbatim>\<open>Scale\<close> takes the workload by pointer: the model returns the workload as the call
  leaves it, next to the error.
\<close>

definition Scale ::
  "env \<Rightarrow> Workload \<Rightarrow> int32 \<Rightarrow> state \<Rightarrow> (error option \<times> Workload) \<times> state"
where
  "Scale env resource replicas s =
     (case getClient env s of
        (Inl err, s1) \<Rightarrow> ((Some err, resource), s1)
      | (Inr c, s1) \<Rightarrow>
         if EqualFold env (Kind resource) ''StatefulSet'' then
           (case perform (Call_StatefulSets_GetScale c (Namespace resource) (Name resource))
                   (\<lambda>h. StatefulSets_GetScale env h c (Namespace resource) (Name resource)) s1 of
              (Inl err, s2) \<Rightarrow> ((Some err, resource), s2)
            | (Inr scale, s2) \<Rightarrow>
               if Spec_Replicas scale = replicas then ((None, resource), s2)
               else
                 (let scale = scale\<lparr>Spec_Replicas := replicas\<rparr> in
                  case perform
                         (Call_StatefulSets_UpdateScale c (Namespace resource) (Name resource) scale)
                         (\<lambda>h. StatefulSets_UpdateScale env h c (Namespace resource) (Name resource) scale)
                         s2 of
                    (Inl err, s3) \<Rightarrow> ((Some err, resource), s3)
                  | (Inr _, s3) \<Rightarrow> ((None, resource), s3)))
         else
           ((Some (Errorf (''Resource kind '' @ Kind resource @ '' is not implemented'')), resource),
            s1))"

subsection \<open>GetEnvValue\<close>

definition GetEnvValue :: "EnvVar \<Rightarrow> string \<times> error option" where
  "GetEnvValue v =
     (if var_Value v \<noteq> '''' then (var_Value v, None)
      else ('''', Some (Errorf (''Error getting value for environment variable '' @ var_Name v))))"

subsection \<open>GetPods\<close>

record Pods =
  Pods :: "Pod list"
  Err :: "error option"

definition GetPods :: "env \<Rightarrow> Pods list \<Rightarrow> Workload \<Rightarrow> state \<Rightarrow> Pods list \<times> state" where
  "GetPods env channel workload s =
     (case getClient env s of
        (Inl err, s1) \<Rightarrow> (channel @ [\<lparr>Pods = [], Err = Some err\<rparr>], s1)
      | (Inr c, s1) \<Rightarrow>
         (let labelSelector = FormatLabelSelector env (PodSelector workload) in
          case perform (Call_Pods_List c (Namespace workload) labelSelector)
                 (\<lambda>h. Pods_List env h c (Namespace workload) labelSelector) s1 of
            (Inl err, s2) \<Rightarrow> (channel @ [\<lparr>Pods = [], Err = Some err\<rparr>], s2)
          | (Inr items, s2) \<Rightarrow> (channel @ [\<lparr>Pods = items, Err = None\<rparr>], s2)))"

subsection \<open>Reading the record of calls\<close>

text \<open>
  The calls that go through the client to the cluster, as opposed to the ones that read a
  configuration or construct the client.
\<close>

fun is_cluster_call :: "call \<Rightarrow> bool" where
  "is_cluster_call Call_InClusterConfig = False"
| "is_cluster_call (Call_BuildConfigFromFlags masterUrl path) = False"
| "is_cluster_call (Call_NewForConfig cfg) = False"
| "is_cluster_call (Call_StatefulSets_Get c ns n) = True"
| "is_cluster_call (Call_HorizontalPodAutoscalers_List c ns) = True"
| "is_cluster_call (Call_StatefulSets_GetScale c ns n) = True"
| "is_cluster_call (Call_StatefulSets_UpdateScale c ns n sc) = True"
| "is_cluster_call (Call_Pods_List c ns sel) = True"

text \<open>The update writes.\<close>

fun is_update :: "call \<Rightarrow> bool" where
  "is_update (Call_StatefulSets_UpdateScale c ns n sc) = True"
| "is_update other = False"

subsection \<open>Concrete environments\<close>

text \<open>
  The state of a fresh process: \<^verbatim>\<open>var k8sClient = k8sClientSet{}\<close>, and nothing called yet.
\<close>

definition fresh :: state where
  "fresh = \<lparr>client = None, calls = []\<rparr>"

text \<open>Case folding of package \<^verbatim>\<open>strings\<close>, on ASCII text.\<close>

definition ascii_lower :: "char \<Rightarrow> char" where
  "ascii_lower c =
     (case map_of (zip ''ABCDEFGHIJKLMNOPQRSTUVWXYZ'' ''abcdefghijklmnopqrstuvwxyz'') c of
        Some l \<Rightarrow> l
      | None \<Rightarrow> c)"

definition ascii_ToLower :: "string \<Rightarrow> string" where
  "ascii_ToLower s = map ascii_lower s"

definition ascii_EqualFold :: "string \<Rightarrow> string \<Rightarrow> bool" where
  "ascii_EqualFold a b = (ascii_ToLower a = ascii_ToLower b)"

fun format_labels :: "LabelSelector \<Rightarrow> string" where
  "format_labels [] = []"
| "format_labels [(k, v)] = k @ ''='' @ v"
| "format_labels ((k, v) # rest) = k @ ''='' @ v @ '','' @ format_labels rest"

definition hpa_for :: "string \<Rightarrow> string \<Rightarrow> HorizontalPodAutoscaler" where
  "hpa_for kind name = \<lparr>Spec_ScaleTargetRef = \<lparr>ref_Kind = kind, ref_Name = name\<rparr>\<rparr>"

definition agents_scale :: Scale where
  "agents_scale =
     \<lparr>Scale_Namespace = ''ns'', Scale_Name = ''agents'', Scale_ResourceVersion = ''41'',
      Spec_Replicas = 3, Status_Replicas = 3\<rparr>"

text \<open>
  A process inside a cluster: the in-cluster configuration loads.  The namespace holds the
  StatefulSet \<open>agents\<close> at three replicas, two pods, and autoscaler policies that target
  \<open>foo\<close>, \<open>bar\<close> and, twice, \<open>target\<close>, in this order.
\<close>

definition env_in_cluster :: env where
  "env_in_cluster =
     \<lparr>InClusterConfig = (\<lambda>h. Inr (Config 0)),
      BuildConfigFromFlags = (\<lambda>h masterUrl path. Inl (Errorf ''invalid configuration'')),
      NewForConfig = (\<lambda>h cfg. Inr (Clientset 1)),
      StatefulSets_Get =
        (\<lambda>h c ns n.
           if n = ''agents''
           then Inr (Some \<lparr>sts_Namespace = ns, sts_Name = n,
                           sts_Selector = [(''app'', ''azp-agent'')]\<rparr>)
           else Inr None),
      HorizontalPodAutoscalers_List =
        (\<lambda>h c ns. Inr [hpa_for ''Deployment'' ''foo'', hpa_for ''statefulset'' ''bar'',
                       hpa_for ''statefulset'' ''target'', hpa_for ''StatefulSet'' ''target'']),
      StatefulSets_GetScale = (\<lambda>h c ns n. Inr agents_scale),
      StatefulSets_UpdateScale = (\<lambda>h c ns n sc. Inr sc),
      Pods_List = (\<lambda>h c ns sel. Inr [Pod ''agents-0'', Pod ''agents-1'']),
      Getenv = (\<lambda>v. if v = ''HOME'' then ''/root'' else []),
      EqualFold = ascii_EqualFold,
      ToLower = ascii_ToLower,
      FormatLabelSelector = format_labels\<rparr>"

text \<open>
  A process outside a cluster with no \<^verbatim>\<open>KUBECONFIG\<close>: only the file under the home
  directory loads.
\<close>

definition env_home_kubeconfig :: env where
  "env_home_kubeconfig =
     env_in_cluster
       \<lparr>InClusterConfig := (\<lambda>h. Inl (Errorf ''unable to load in-cluster configuration'')),
        BuildConfigFromFlags :=
          (\<lambda>h masterUrl path.
             if path = ''/root/.kube/config'' then Inr (Config 2)
             else Inl (Errorf ''invalid configuration''))\<rparr>"

text \<open>A process with no credentials at all: every configuration stage fails.\<close>

definition env_no_config :: env where
  "env_no_config =
     env_in_cluster
       \<lparr>InClusterConfig := (\<lambda>h. Inl (Errorf ''unable to load in-cluster configuration''))\<rparr>"

text \<open>A cluster that refuses every request, reached from inside.\<close>

definition env_forbidden :: env where
  "env_forbidden =
     env_in_cluster
       \<lparr>StatefulSets_Get := (\<lambda>h c ns n. Inl (Errorf ''forbidden'')),
        HorizontalPodAutoscalers_List := (\<lambda>h c ns. Inl (Errorf ''forbidden'')),
        StatefulSets_GetScale := (\<lambda>h c ns n. Inl (Errorf ''forbidden'')),
        Pods_List := (\<lambda>h c ns sel. Inl (Errorf ''forbidden''))\<rparr>"

definition agents :: Workload where
  "agents = \<lparr>Kind = ''StatefulSet'', Namespace = ''ns'', Name = ''agents'',
             PodSelector = [(''app'', ''azp-agent'')]\<rparr>"

definition deployment :: Workload where
  "deployment = \<lparr>Kind = ''Deployment'', Namespace = ''ns'', Name = ''x'', PodSelector = []\<rparr>"

section \<open>Properties\<close>

subsection \<open>Auxiliary facts\<close>

lemma newClientset_eq:
  "newClientset env cfg s =
     (case NewForConfig env (calls s) cfg of
        Inr cs \<Rightarrow> (Inr cs, \<lparr>client = Some cs, calls = calls s @ [Call_NewForConfig cfg]\<rparr>)
      | Inl err \<Rightarrow> (Inl err, \<lparr>client = client s, calls = calls s @ [Call_NewForConfig cfg]\<rparr>))"
  by (simp add: newClientset_def perform_def split: sum.splits)

lemma getClient_cached: "client s = Some c \<Longrightarrow> getClient env s = (Inr c, s)"
  by (simp add: getClient_def)

lemma getClient_Inl: "getClient env s = (Inl e, s') \<Longrightarrow> client s = None \<and> client s' = None"
  by (auto simp: getClient_def newClientset_eq perform_def Let_def
      split: option.splits sum.splits prod.splits if_splits)

lemma getClient_Inr: "getClient env s = (Inr c, s') \<Longrightarrow> client s' = Some c"
  by (auto simp: getClient_def newClientset_eq perform_def Let_def
      split: option.splits sum.splits prod.splits if_splits)

lemma getClient_extends:
  "\<exists>cs. calls (snd (getClient env s)) = calls s @ cs \<and> filter is_cluster_call cs = []"
  by (auto simp: getClient_def newClientset_eq perform_def Let_def
      split: option.splits sum.splits prod.splits if_splits)

lemma hpa_loop_sends:
  "hpa_loop env channel kind name items = (channel, False)
   \<or> (\<exists>m. hpa_loop env channel kind name items = (channel @ [m], True))"
  by (induction items) auto

lemma is_update_cluster_call: "is_update c \<Longrightarrow> is_cluster_call c"
  by (cases c) simp_all

lemma getClient_no_cluster_call:
  "filter is_cluster_call (calls (snd (getClient env s))) = filter is_cluster_call (calls s)"
proof -
  obtain cs where "calls (snd (getClient env s)) = calls s @ cs" "filter is_cluster_call cs = []"
    using getClient_extends [of env s] by blast
  then show ?thesis by simp
qed

lemma getClient_no_update:
  "filter is_update (calls (snd (getClient env s))) = filter is_update (calls s)"
proof -
  obtain cs where cs: "calls (snd (getClient env s)) = calls s @ cs"
    and none: "filter is_cluster_call cs = []"
    using getClient_extends [of env s] by blast
  from none have "\<forall>c\<in>set cs. \<not> is_update c"
    using is_update_cluster_call by (auto simp: filter_empty_conv)
  then have "filter is_update cs = []"
    by (simp add: filter_empty_conv)
  with cs show ?thesis by simp
qed

lemma getClient_in_cluster_fresh:
  "getClient env_in_cluster fresh =
     (Inr (Clientset 1),
      \<lparr>client = Some (Clientset 1), calls = [Call_InClusterConfig, Call_NewForConfig (Config 0)]\<rparr>)"
  by (simp add: getClient_def newClientset_eq perform_def env_in_cluster_def fresh_def)

lemma VerifyNoHorizontalPodAutoscaler_sends:
  "\<exists>m. fst (VerifyNoHorizontalPodAutoscaler env errors kind namespace name s) = errors @ [m]"
proof (cases "getClient env s")
  case (Pair r s1)
  show ?thesis
  proof (cases r)
    case (Inl err)
    with Pair show ?thesis
      by (simp add: VerifyNoHorizontalPodAutoscaler_def)
  next
    case (Inr c)
    note acquired = Pair Inr
    show ?thesis
    proof (cases "HorizontalPodAutoscalers_List env (calls s1) c namespace")
      case (Inl err)
      with acquired show ?thesis
        by (simp add: VerifyNoHorizontalPodAutoscaler_def perform_def)
    next
      case (Inr items)
      from hpa_loop_sends [of env errors kind name items] show ?thesis
      proof
        assume "hpa_loop env errors kind name items = (errors, False)"
        with acquired Inr show ?thesis
          by (simp add: VerifyNoHorizontalPodAutoscaler_def perform_def)
      next
        assume "\<exists>m. hpa_loop env errors kind name items = (errors @ [m], True)"
        then obtain m where "hpa_loop env errors kind name items = (errors @ [m], True)" ..
        with acquired Inr show ?thesis
          by (simp add: VerifyNoHorizontalPodAutoscaler_def perform_def)
      qed
    qed
  qed
qed

lemma hpa_loop_first_match:
  assumes "\<forall>x\<in>set before. \<not> (EqualFold env (ref_Kind (Spec_ScaleTargetRef x)) kind
                                \<and> ref_Name (Spec_ScaleTargetRef x) = name)"
    and "EqualFold env (ref_Kind (Spec_ScaleTargetRef hpa)) kind"
    and "ref_Name (Spec_ScaleTargetRef hpa) = name"
  shows "hpa_loop env channel kind name (before @ hpa # after) =
     (channel @ [Some (Errorf (''Error: '' @ ToLower env kind @ ''/'' @ name @
         '' cannot have a HorizontalPodAutoscaler attached for azp-agent-autoscaler to work''))],
      True)"
  using assms by (induction before) auto

lemma hpa_loop_no_match:
  assumes "\<forall>x\<in>set items. \<not> (EqualFold env (ref_Kind (Spec_ScaleTargetRef x)) kind
                                \<and> ref_Name (Spec_ScaleTargetRef x) = name)"
  shows "hpa_loop env channel kind name items = (channel, False)"
  using assms by (induction items) auto

lemma getClient_cached_again:
  "client t = Some c \<Longrightarrow> ((\<lambda>t. snd (getClient env t)) ^^ n) t = t"
  by (induction n) (simp_all add: getClient_cached)

lemma getClient_uncached_starts:
  "client t = None \<Longrightarrow>
     \<exists>rest. calls (snd (getClient env t)) = calls t @ Call_InClusterConfig # rest"
  by (simp add: getClient_def newClientset_eq perform_def Let_def split: sum.splits)

lemma getClient_no_config_fresh:
  "getClient env_no_config fresh =
     (Inl (Errorf ''Error initializing Kubernetes config: invalid configuration''),
      \<lparr>client = None,
       calls = [Call_InClusterConfig, Call_BuildConfigFromFlags '''' '''',
                Call_BuildConfigFromFlags '''' ''/root/.kube/config'']\<rparr>)"
  by (simp add: getClient_def perform_def env_no_config_def env_in_cluster_def fresh_def)

lemma getClient_forbidden_fresh:
  "getClient env_forbidden fresh =
     (Inr (Clientset 1),
      \<lparr>client = Some (Clientset 1), calls = [Call_InClusterConfig, Call_NewForConfig (Config 0)]\<rparr>)"
  by (simp add: getClient_def newClientset_eq perform_def env_forbidden_def env_in_cluster_def
      fresh_def)

subsection \<open>Scale: fetch, compare, update\<close>

text \<open>
  What \<open>Scale\<close> does for a supported kind once the client is at hand (lines 120 to
  128): the fetch, the comparison and the update.
\<close>

lemma Scale_after_acquisition:
  assumes acquired: "getClient env s = (Inr c, s1)"
    and supported: "EqualFold env (Kind resource) ''StatefulSet''"
  shows "Scale env resource replicas s =
     (case StatefulSets_GetScale env (calls s1) c (Namespace resource) (Name resource) of
        Inl err \<Rightarrow>
          ((Some err, resource),
           s1\<lparr>calls := calls s1 @
              [Call_StatefulSets_GetScale c (Namespace resource) (Name resource)]\<rparr>)
      | Inr scale \<Rightarrow>
          if Spec_Replicas scale = replicas then
            ((None, resource),
             s1\<lparr>calls := calls s1 @
                [Call_StatefulSets_GetScale c (Namespace resource) (Name resource)]\<rparr>)
          else
            ((case StatefulSets_UpdateScale env
                     (calls s1 @ [Call_StatefulSets_GetScale c (Namespace resource) (Name resource)])
                     c (Namespace resource) (Name resource) (scale\<lparr>Spec_Replicas := replicas\<rparr>) of
                Inl err \<Rightarrow> Some err
              | Inr updated \<Rightarrow> None,
              resource),
             s1\<lparr>calls := calls s1 @
                [Call_StatefulSets_GetScale c (Namespace resource) (Name resource),
                 Call_StatefulSets_UpdateScale c (Namespace resource) (Name resource)
                   (scale\<lparr>Spec_Replicas := replicas\<rparr>)]\<rparr>))"
  using acquired supported
  by (simp add: Scale_def perform_def Let_def split: sum.splits)

lemma Scale_after_acquisition_updates:
  assumes acquired: "getClient env s = (Inr c, s1)"
    and supported: "EqualFold env (Kind resource) ''StatefulSet''"
  shows "length (filter is_update (calls (snd (Scale env resource replicas s)))) =
         length (filter is_update (calls s)) +
         (case StatefulSets_GetScale env (calls s1) c (Namespace resource) (Name resource) of
            Inl err \<Rightarrow> 0
          | Inr scale \<Rightarrow> if Spec_Replicas scale = replicas then 0 else 1)"
proof -
  have "filter is_update (calls s1) = filter is_update (calls s)"
    using getClient_no_update [of env s] acquired by simp
  then show ?thesis
    unfolding Scale_after_acquisition [OF acquired supported]
    by (simp split: sum.splits)
qed

lemma Scale_without_client:
  assumes failed: "getClient env s = (Inl err, s1)"
  shows "Scale env resource replicas s = ((Some err, resource), s1)"
    and "filter is_cluster_call (calls s1) = filter is_cluster_call (calls s)"
proof -
  show "Scale env resource replicas s = ((Some err, resource), s1)"
    using failed by (simp add: Scale_def)
  show "filter is_cluster_call (calls s1) = filter is_cluster_call (calls s)"
    using getClient_no_cluster_call [of env s] failed by simp
qed

lemma agents_supported_forbidden:
  "EqualFold env_forbidden (Kind agents) ''StatefulSet''"
  by (simp add: env_forbidden_def env_in_cluster_def agents_def ascii_EqualFold_def)

lemma agents_supported_no_config:
  "EqualFold env_no_config (Kind agents) ''StatefulSet''"
  by (simp add: env_no_config_def env_in_cluster_def agents_def ascii_EqualFold_def)

text \<open>
  C1, as stated: for every workload of a supported kind \<open>Scale\<close> first fetches the scale
  sub-resource, and unless the fetched replica count equals the desired one it issues
  exactly one update write.  It fails where the client cannot be acquired: \<open>Scale\<close>
  calls \<open>getClient\<close> first (lines 100 to 103 come before line 120), and with no
  credentials it returns the configuration error and records neither a fetch nor a write.
  It fails as well where the fetch is refused: the error of the fetch is returned (lines
  121 to 123) and no update write is issued.
\<close>

theorem Scale_without_client_counterexample:
  "EqualFold env_no_config (Kind agents) ''StatefulSet''
   \<and> Scale env_no_config agents 5 fresh =
       ((Some (Errorf ''Error initializing Kubernetes config: invalid configuration''), agents),
        \<lparr>client = None,
         calls = [Call_InClusterConfig, Call_BuildConfigFromFlags '''' '''',
                  Call_BuildConfigFromFlags '''' ''/root/.kube/config'']\<rparr>)
   \<and> EqualFold env_forbidden (Kind agents) ''StatefulSet''
   \<and> Scale env_forbidden agents 5 fresh =
       ((Some (Errorf ''forbidden''), agents),
        \<lparr>client = Some (Clientset 1),
         calls = [Call_InClusterConfig, Call_NewForConfig (Config 0),
                  Call_StatefulSets_GetScale (Clientset 1) ''ns'' ''agents'']\<rparr>)"
proof -
  have "Scale env_no_config agents 5 fresh =
       ((Some (Errorf ''Error initializing Kubernetes config: invalid configuration''), agents),
        \<lparr>client = None,
         calls = [Call_InClusterConfig, Call_BuildConfigFromFlags '''' '''',
                  Call_BuildConfigFromFlags '''' ''/root/.kube/config'']\<rparr>)"
    by (simp add: Scale_def getClient_no_config_fresh)
  moreover have "StatefulSets_GetScale env_forbidden h c ns n = Inl (Errorf ''forbidden'')"
    for h c ns n
    by (simp add: env_forbidden_def env_in_cluster_def)
  then have "Scale env_forbidden agents 5 fresh =
       ((Some (Errorf ''forbidden''), agents),
        \<lparr>client = Some (Clientset 1),
         calls = [Call_InClusterConfig, Call_NewForConfig (Config 0),
                  Call_StatefulSets_GetScale (Clientset 1) ''ns'' ''agents'']\<rparr>)"
    by (simp add: Scale_def perform_def getClient_forbidden_fresh agents_supported_forbidden
        agents_def [symmetric])
       (simp add: agents_def)
  ultimately show ?thesis
    using agents_supported_no_config agents_supported_forbidden by simp
qed

text \<open>
  C1, amended.  For a workload of a supported kind and a desired replica count, \<open>Scale\<close>
  first acquires the client.  When the acquisition fails, it returns the acquisition error
  and makes no call to the cluster: no fetch, no write.  When the client is acquired,
  \<open>Scale\<close> fetches the scale sub-resource: the fetch is the first call it records after
  the acquisition.  When the fetch fails, it returns the error of the fetch and issues no
  update write.  When the fetched replica count equals the desired one, it returns nil and
  records no further call, so no update write.  Otherwise it sets the replica count of the
  fetched value to the desired one, issues exactly one update write with that value, and
  returns the error of that update as it is (nil when the update succeeds).  The number of
  update writes on record grows by one in this last case and by none in the others.
\<close>

theorem Scale_fetch_compare_update:
  assumes supported: "EqualFold env (Kind resource) ''StatefulSet''"
  shows "(getClient env s = (Inl err, s1)
            \<longrightarrow> Scale env resource replicas s = ((Some err, resource), s1)
              \<and> filter is_cluster_call (calls s1) = filter is_cluster_call (calls s))
       \<and> (getClient env s = (Inr c, s1)
            \<longrightarrow> Scale env resource replicas s =
                 (case StatefulSets_GetScale env (calls s1) c (Namespace resource) (Name resource) of
                    Inl err \<Rightarrow>
                      ((Some err, resource),
                       s1\<lparr>calls := calls s1 @
                          [Call_StatefulSets_GetScale c (Namespace resource) (Name resource)]\<rparr>)
                  | Inr scale \<Rightarrow>
                      if Spec_Replicas scale = replicas then
                        ((None, resource),
                         s1\<lparr>calls := calls s1 @
                            [Call_StatefulSets_GetScale c (Namespace resource) (Name resource)]\<rparr>)
                      else
                        ((case StatefulSets_UpdateScale env
                                 (calls s1 @
                                    [Call_StatefulSets_GetScale c (Namespace resource) (Name resource)])
                                 c (Namespace resource) (Name resource)
                                 (scale\<lparr>Spec_Replicas := replicas\<rparr>) of
                            Inl err \<Rightarrow> Some err
                          | Inr updated \<Rightarrow> None,
                          resource),
                         s1\<lparr>calls := calls s1 @
                            [Call_StatefulSets_GetScale c (Namespace resource) (Name resource),
                             Call_StatefulSets_UpdateScale c (Namespace resource) (Name resource)
                               (scale\<lparr>Spec_Replicas := replicas\<rparr>)]\<rparr>))
              \<and> length (filter is_update (calls (snd (Scale env resource replicas s)))) =
                  length (filter is_update (calls s)) +
                  (case StatefulSets_GetScale env (calls s1) c (Namespace resource) (Name resource) of
                     Inl err \<Rightarrow> 0
                   | Inr scale \<Rightarrow> if Spec_Replicas scale = replicas then 0 else 1))"
proof (intro conjI impI)
  assume failed: "getClient env s = (Inl err, s1)"
  then show "Scale env resource replicas s = ((Some err, resource), s1)"
    by (rule Scale_without_client)
  from failed show "filter is_cluster_call (calls s1) = filter is_cluster_call (calls s)"
    by (rule Scale_without_client)
next
  assume acquired: "getClient env s = (Inr c, s1)"
  then show "Scale env resource replicas s =
     (case StatefulSets_GetScale env (calls s1) c (Namespace resource) (Name resource) of
        Inl err \<Rightarrow>
          ((Some err, resource),
           s1\<lparr>calls := calls s1 @
              [Call_StatefulSets_GetScale c (Namespace resource) (Name resource)]\<rparr>)
      | Inr scale \<Rightarrow>
          if Spec_Replicas scale = replicas then
            ((None, resource),
             s1\<lparr>calls := calls s1 @
                [Call_StatefulSets_GetScale c (Namespace resource) (Name resource)]\<rparr>)
          else
            ((case StatefulSets_UpdateScale env
                     (calls s1 @ [Call_StatefulSets_GetScale c (Namespace resource) (Name resource)])
                     c (Namespace resource) (Name resource) (scale\<lparr>Spec_Replicas := replicas\<rparr>) of
                Inl err \<Rightarrow> Some err
              | Inr updated \<Rightarrow> None,
              resource),
             s1\<lparr>calls := calls s1 @
                [Call_StatefulSets_GetScale c (Namespace resource) (Name resource),
                 Call_StatefulSets_UpdateScale c (Namespace resource) (Name resource)
                   (scale\<lparr>Spec_Replicas := replicas\<rparr>)]\<rparr>))"
    using supported by (rule Scale_after_acquisition)
  from acquired supported
  show "length (filter is_update (calls (snd (Scale env resource replicas s)))) =
         length (filter is_update (calls s)) +
         (case StatefulSets_GetScale env (calls s1) c (Namespace resource) (Name resource) of
            Inl err \<Rightarrow> 0
          | Inr scale \<Rightarrow> if Spec_Replicas scale = replicas then 0 else 1)"
    by (rule Scale_after_acquisition_updates)
qed

text \<open>
  With no credentials nothing is fetched.  Inside a cluster, the scenario of the
  specification: at three replicas, a desired count of three writes nothing, and a desired
  count of five makes one write, with five replicas.
\<close>

theorem Scale_fetch_compare_update_witness:
  "EqualFold env_no_config (Kind agents) ''StatefulSet''
   \<and> getClient env_no_config fresh =
       (Inl (Errorf ''Error initializing Kubernetes config: invalid configuration''),
        \<lparr>client = None,
         calls = [Call_InClusterConfig, Call_BuildConfigFromFlags '''' '''',
                  Call_BuildConfigFromFlags '''' ''/root/.kube/config'']\<rparr>)
   \<and> Scale env_no_config agents 5 fresh =
       ((Some (Errorf ''Error initializing Kubernetes config: invalid configuration''), agents),
        \<lparr>client = None,
         calls = [Call_InClusterConfig, Call_BuildConfigFromFlags '''' '''',
                  Call_BuildConfigFromFlags '''' ''/root/.kube/config'']\<rparr>)
   \<and> EqualFold env_in_cluster (Kind agents) ''StatefulSet''
   \<and> getClient env_in_cluster fresh =
       (Inr (Clientset 1),
        \<lparr>client = Some (Clientset 1), calls = [Call_InClusterConfig, Call_NewForConfig (Config 0)]\<rparr>)
   \<and> Scale env_in_cluster agents 3 fresh =
       ((None, agents),
        \<lparr>client = Some (Clientset 1),
         calls = [Call_InClusterConfig, Call_NewForConfig (Config 0),
                  Call_StatefulSets_GetScale (Clientset 1) ''ns'' ''agents'']\<rparr>)
   \<and> Scale env_in_cluster agents 5 fresh =
       ((None, agents),
        \<lparr>client = Some (Clientset 1),
         calls = [Call_InClusterConfig, Call_NewForConfig (Config 0),
                  Call_StatefulSets_GetScale (Clientset 1) ''ns'' ''agents'',
                  Call_StatefulSets_UpdateScale (Clientset 1) ''ns'' ''agents''
                    (agents_scale\<lparr>Spec_Replicas := 5\<rparr>)]\<rparr>)"
proof -
  note failed = getClient_no_config_fresh
  note acquired = getClient_in_cluster_fresh
  note unsupplied = agents_supported_no_config
  have supported: "EqualFold env_in_cluster (Kind agents) ''StatefulSet''"
    by (simp add: env_in_cluster_def agents_def ascii_EqualFold_def)
  have "Scale env_no_config agents 5 fresh =
       ((Some (Errorf ''Error initializing Kubernetes config: invalid configuration''), agents),
        \<lparr>client = None,
         calls = [Call_InClusterConfig, Call_BuildConfigFromFlags '''' '''',
                  Call_BuildConfigFromFlags '''' ''/root/.kube/config'']\<rparr>)"
    using Scale_fetch_compare_update [OF unsupplied, where s = fresh and replicas = 5
        and err = "Errorf ''Error initializing Kubernetes config: invalid configuration''"
        and ?s1.0 = "\<lparr>client = None,
         calls = [Call_InClusterConfig, Call_BuildConfigFromFlags '''' '''',
                  Call_BuildConfigFromFlags '''' ''/root/.kube/config'']\<rparr>"] failed
    by simp
  moreover have "Scale env_in_cluster agents 3 fresh =
       ((None, agents),
        \<lparr>client = Some (Clientset 1),
         calls = [Call_InClusterConfig, Call_NewForConfig (Config 0),
                  Call_StatefulSets_GetScale (Clientset 1) ''ns'' ''agents'']\<rparr>)"
    using Scale_fetch_compare_update [OF supported, where s = fresh and replicas = 3
        and c = "Clientset 1"
        and ?s1.0 = "\<lparr>client = Some (Clientset 1),
                      calls = [Call_InClusterConfig, Call_NewForConfig (Config 0)]\<rparr>"] acquired
    by (simp add: env_in_cluster_def agents_def agents_scale_def)
  moreover have "Scale env_in_cluster agents 5 fresh =
       ((None, agents),
        \<lparr>client = Some (Clientset 1),
         calls = [Call_InClusterConfig, Call_NewForConfig (Config 0),
                  Call_StatefulSets_GetScale (Clientset 1) ''ns'' ''agents'',
                  Call_StatefulSets_UpdateScale (Clientset 1) ''ns'' ''agents''
                    (agents_scale\<lparr>Spec_Replicas := 5\<rparr>)]\<rparr>)"
    using Scale_fetch_compare_update [OF supported, where s = fresh and replicas = 5
        and c = "Clientset 1"
        and ?s1.0 = "\<lparr>client = Some (Clientset 1),
                      calls = [Call_InClusterConfig, Call_NewForConfig (Config 0)]\<rparr>"] acquired
    by (simp add: env_in_cluster_def agents_def agents_scale_def)
  ultimately show ?thesis
    using failed acquired unsupplied supported by simp
qed

subsection \<open>Unsupported kinds\<close>

text \<open>
  C2, as stated: for a kind that is not \<open>StatefulSet\<close> under case folding,
  \<open>Scale\<close> returns an unsupported-kind error and makes no call of any sort, client
  acquisition and construction included.  It fails in a fresh process. \<open>Scale\<close> acquires
  the client before it looks at the kind (lines 100 to 103 come before line 107): inside a
  cluster it loads the configuration and constructs the client, and with no credentials it
  returns the configuration error, not the unsupported-kind error.
\<close>

theorem Scale_unsupported_kind_counterexample:
  "\<not> EqualFold env_in_cluster (Kind deployment) ''StatefulSet''
   \<and> calls fresh = []
   \<and> calls (snd (Scale env_in_cluster deployment 5 fresh)) =
       [Call_InClusterConfig, Call_NewForConfig (Config 0)]
   \<and> \<not> EqualFold env_no_config (Kind deployment) ''StatefulSet''
   \<and> fst (fst (Scale env_no_config deployment 5 fresh)) =
       Some (Errorf ''Error initializing Kubernetes config: invalid configuration'')"
  by (simp add: Scale_def getClient_def newClientset_eq perform_def
      env_in_cluster_def env_no_config_def ascii_EqualFold_def ascii_ToLower_def ascii_lower_def
      fresh_def deployment_def)

text \<open>
  C2, amended.  For a kind that is not \<open>StatefulSet\<close> under case folding,
  \<open>GetK8sWorkload\<close> sends the unsupported-kind error and leaves the state as it was: no
  call of any sort, no client acquisition.  \<open>Scale\<close> acquires the client first; when
  that fails it returns the acquisition error, otherwise the unsupported-kind error; and it
  makes no call to the cluster: the calls it records are those of the acquisition.
\<close>

theorem unsupported_kind_no_cluster_call:
  assumes unsupported: "\<not> EqualFold env kind ''StatefulSet''"
    and kind: "Kind resource = kind"
  shows "GetK8sWorkload env channel kind namespace name s =
       (channel @ [GetWorkloadReturn None
                     (Some (Errorf (''Resource kind '' @ kind @ '' is not implemented'')))],
        s)
     \<and> Scale env resource replicas s =
         (case getClient env s of
            (Inl err, s1) \<Rightarrow> ((Some err, resource), s1)
          | (Inr c, s1) \<Rightarrow>
              ((Some (Errorf (''Resource kind '' @ kind @ '' is not implemented'')), resource), s1))
     \<and> filter is_cluster_call (calls (snd (Scale env resource replicas s))) =
         filter is_cluster_call (calls s)"
proof -
  have scale: "Scale env resource replicas s =
         (case getClient env s of
            (Inl err, s1) \<Rightarrow> ((Some err, resource), s1)
          | (Inr c, s1) \<Rightarrow>
              ((Some (Errorf (''Resource kind '' @ kind @ '' is not implemented'')), resource), s1))"
    using unsupported kind by (simp add: Scale_def split: prod.splits sum.splits)
  have "snd (Scale env resource replicas s) = snd (getClient env s)"
    unfolding scale by (simp split: prod.splits sum.splits)
  then have "filter is_cluster_call (calls (snd (Scale env resource replicas s))) =
         filter is_cluster_call (calls s)"
    by (simp add: getClient_no_cluster_call)
  with scale unsupported show ?thesis
    by (simp add: GetK8sWorkload_def)
qed

text \<open>The scenario of the specification: resolving a Deployment.\<close>

theorem unsupported_kind_no_cluster_call_witness:
  "\<not> EqualFold env_in_cluster ''Deployment'' ''StatefulSet''
   \<and> Kind deployment = ''Deployment''
   \<and> GetK8sWorkload env_in_cluster [] ''Deployment'' ''ns'' ''x'' fresh =
       ([GetWorkloadReturn None (Some (Errorf ''Resource kind Deployment is not implemented''))],
        fresh)
   \<and> Scale env_in_cluster deployment 5 fresh =
       ((Some (Errorf ''Resource kind Deployment is not implemented''), deployment),
        \<lparr>client = Some (Clientset 1), calls = [Call_InClusterConfig, Call_NewForConfig (Config 0)]\<rparr>)"
proof -
  have unsupported: "\<not> EqualFold env_in_cluster ''Deployment'' ''StatefulSet''"
    by (simp add: env_in_cluster_def ascii_EqualFold_def ascii_ToLower_def ascii_lower_def)
  have kind: "Kind deployment = ''Deployment''"
    by (simp add: deployment_def)
  show ?thesis
    using unsupported kind
      unsupported_kind_no_cluster_call [OF unsupported kind, of "[]" "''ns''" "''x''" fresh 5]
    by (simp add: getClient_in_cluster_fresh)
qed

subsection \<open>One message for each invocation\<close>

text \<open>
  C3.  Each of \<open>GetK8sWorkload\<close>, \<open>VerifyNoHorizontalPodAutoscaler\<close> and \<open>GetPods\<close>
  sends exactly one message on the channel it is given, whatever the environment answers and
  whatever the state: the channel after the call is the channel before it with one message
  appended.
\<close>

theorem exactly_one_message:
  "(\<exists>m. fst (GetK8sWorkload env workloads kind namespace name s) = workloads @ [m])
   \<and> (\<exists>m. fst (VerifyNoHorizontalPodAutoscaler env errors kind namespace name s) = errors @ [m])
   \<and> (\<exists>m. fst (GetPods env pods workload s) = pods @ [m])"
proof (intro conjI)
  show "\<exists>m. fst (GetK8sWorkload env workloads kind namespace name s) = workloads @ [m]"
    by (simp add: GetK8sWorkload_def split: prod.splits)
  show "\<exists>m. fst (VerifyNoHorizontalPodAutoscaler env errors kind namespace name s) = errors @ [m]"
    by (rule VerifyNoHorizontalPodAutoscaler_sends)
  show "\<exists>m. fst (GetPods env pods workload s) = pods @ [m]"
    by (simp add: GetPods_def Let_def split: prod.splits sum.splits)
qed

subsection \<open>VerifyNoHorizontalPodAutoscaler: the scan\<close>

text \<open>
  C4.  Once the client is at hand and the list call has answered with a sequence of
  autoscaler policies, \<open>VerifyNoHorizontalPodAutoscaler\<close> scans the sequence in order.
  An element matches when its scale-target kind equals the queried kind under case folding
  and its scale-target name equals the queried name exactly.  When the sequence is some
  elements that do not match, then one that does, then anything at all, the conflict error is
  sent; what follows the first match has no part in the outcome.  When no element matches,
  nil is sent.  In both cases the list call is the only call recorded after the acquisition.
\<close>

theorem VerifyNoHorizontalPodAutoscaler_first_match:
  fixes env kind name
  defines "targets \<equiv> \<lambda>hpa. EqualFold env (ref_Kind (Spec_ScaleTargetRef hpa)) kind
                            \<and> ref_Name (Spec_ScaleTargetRef hpa) = name"
    and "conflict \<equiv> Errorf (''Error: '' @ ToLower env kind @ ''/'' @ name @
         '' cannot have a HorizontalPodAutoscaler attached for azp-agent-autoscaler to work'')"
  assumes acquired: "getClient env s = (Inr c, s1)"
    and listed: "HorizontalPodAutoscalers_List env (calls s1) c namespace = Inr items"
  shows "(items = before @ hpa # after \<and> (\<forall>x\<in>set before. \<not> targets x) \<and> targets hpa
            \<longrightarrow> VerifyNoHorizontalPodAutoscaler env channel kind namespace name s =
                  (channel @ [Some conflict],
                   s1\<lparr>calls := calls s1 @ [Call_HorizontalPodAutoscalers_List c namespace]\<rparr>))
       \<and> ((\<forall>x\<in>set items. \<not> targets x)
            \<longrightarrow> VerifyNoHorizontalPodAutoscaler env channel kind namespace name s =
                  (channel @ [None],
                   s1\<lparr>calls := calls s1 @ [Call_HorizontalPodAutoscalers_List c namespace]\<rparr>))"
proof (intro conjI impI)
  assume "items = before @ hpa # after \<and> (\<forall>x\<in>set before. \<not> targets x) \<and> targets hpa"
  then have "hpa_loop env channel kind name items = (channel @ [Some conflict], True)"
    unfolding targets_def conflict_def by (simp add: hpa_loop_first_match)
  with acquired listed
  show "VerifyNoHorizontalPodAutoscaler env channel kind namespace name s =
          (channel @ [Some conflict],
           s1\<lparr>calls := calls s1 @ [Call_HorizontalPodAutoscalers_List c namespace]\<rparr>)"
    by (simp add: VerifyNoHorizontalPodAutoscaler_def perform_def)
next
  assume "\<forall>x\<in>set items. \<not> targets x"
  then have "hpa_loop env channel kind name items = (channel, False)"
    unfolding targets_def by (rule hpa_loop_no_match)
  with acquired listed
  show "VerifyNoHorizontalPodAutoscaler env channel kind namespace name s =
          (channel @ [None],
           s1\<lparr>calls := calls s1 @ [Call_HorizontalPodAutoscalers_List c namespace]\<rparr>)"
    by (simp add: VerifyNoHorizontalPodAutoscaler_def perform_def)
qed

text \<open>
  The scenario of the specification: policies that target \<open>foo\<close>, \<open>bar\<close> and
  \<open>target\<close>, with one more policy on \<open>target\<close> behind the first.  The kind
  \<open>statefulset\<close> of the policy matches the query \<open>StatefulSet\<close>; the name
  \<open>Target\<close> does not match \<open>target\<close>.
\<close>

theorem VerifyNoHorizontalPodAutoscaler_first_match_witness:
  "getClient env_in_cluster fresh =
     (Inr (Clientset 1),
      \<lparr>client = Some (Clientset 1), calls = [Call_InClusterConfig, Call_NewForConfig (Config 0)]\<rparr>)
   \<and> HorizontalPodAutoscalers_List env_in_cluster
         [Call_InClusterConfig, Call_NewForConfig (Config 0)] (Clientset 1) ''ns'' =
       Inr ([hpa_for ''Deployment'' ''foo'', hpa_for ''statefulset'' ''bar'']
            @ hpa_for ''statefulset'' ''target'' # [hpa_for ''StatefulSet'' ''target''])
   \<and> EqualFold env_in_cluster ''statefulset'' ''StatefulSet''
   \<and> VerifyNoHorizontalPodAutoscaler env_in_cluster [] ''StatefulSet'' ''ns'' ''target'' fresh =
       ([Some (Errorf ''Error: statefulset/target cannot have a HorizontalPodAutoscaler attached for azp-agent-autoscaler to work'')],
        \<lparr>client = Some (Clientset 1),
         calls = [Call_InClusterConfig, Call_NewForConfig (Config 0),
                  Call_HorizontalPodAutoscalers_List (Clientset 1) ''ns'']\<rparr>)
   \<and> VerifyNoHorizontalPodAutoscaler env_in_cluster [] ''StatefulSet'' ''ns'' ''Target'' fresh =
       ([None],
        \<lparr>client = Some (Clientset 1),
         calls = [Call_InClusterConfig, Call_NewForConfig (Config 0),
                  Call_HorizontalPodAutoscalers_List (Clientset 1) ''ns'']\<rparr>)"
proof -
  note acquired = getClient_in_cluster_fresh
  have listed: "HorizontalPodAutoscalers_List env_in_cluster
         (calls \<lparr>client = Some (Clientset 1),
                 calls = [Call_InClusterConfig, Call_NewForConfig (Config 0)]\<rparr>)
         (Clientset 1) ''ns'' =
       Inr ([hpa_for ''Deployment'' ''foo'', hpa_for ''statefulset'' ''bar'']
            @ hpa_for ''statefulset'' ''target'' # [hpa_for ''StatefulSet'' ''target''])"
    by (simp add: env_in_cluster_def)
  have fold: "EqualFold env_in_cluster ''statefulset'' ''StatefulSet''"
    by (simp add: env_in_cluster_def ascii_EqualFold_def ascii_ToLower_def ascii_lower_def)
  have fold': "\<not> EqualFold env_in_cluster ''Deployment'' ''StatefulSet''"
    by (simp add: env_in_cluster_def ascii_EqualFold_def ascii_ToLower_def ascii_lower_def)
  have fold'': "EqualFold env_in_cluster ''StatefulSet'' ''StatefulSet''"
    by (simp add: env_in_cluster_def ascii_EqualFold_def)
  have lower: "ToLower env_in_cluster ''StatefulSet'' = ''statefulset''"
    by (simp add: env_in_cluster_def ascii_ToLower_def ascii_lower_def)
  note hit = VerifyNoHorizontalPodAutoscaler_first_match [OF acquired listed,
      where kind = "''StatefulSet''" and name = "''target''" and channel = "[]"
        and before = "[hpa_for ''Deployment'' ''foo'', hpa_for ''statefulset'' ''bar'']"
        and hpa = "hpa_for ''statefulset'' ''target''"
        and after = "[hpa_for ''StatefulSet'' ''target'']"]
  note miss = VerifyNoHorizontalPodAutoscaler_first_match [OF acquired listed,
      where kind = "''StatefulSet''" and name = "''Target''" and channel = "[]"]
  show ?thesis
    using acquired listed fold hit miss
    by (simp add: fold' fold'' lower hpa_for_def)
qed

subsection \<open>getClient: the order of the configuration stages\<close>

text \<open>
  C5.  With no client cached, \<open>getClient\<close> tries the configuration stages in a fixed
  order: (a) the in-cluster configuration, (b) the file named by \<^verbatim>\<open>KUBECONFIG\<close>, (c) the
  file \<^verbatim>\<open>.kube/config\<close> under the home directory (\<^verbatim>\<open>HOME\<close>, or \<^verbatim>\<open>USERPROFILE\<close> when
  \<^verbatim>\<open>HOME\<close> is empty).  A later stage is tried only when the one before it failed, and the
  configuration of the first stage that succeeds is the one the client is built from.  When
  all three fail, the error of the last is wrapped and returned, and no client is built.
\<close>

theorem getClient_stage_order:
  fixes env s
  defines "h \<equiv> calls s"
    and "kubeconfigEnv \<equiv> Getenv env ''KUBECONFIG''"
    and "home \<equiv> (if Getenv env ''HOME'' = '''' then Getenv env ''USERPROFILE''
                    else Getenv env ''HOME'')"
  defines "stage_a \<equiv> Call_InClusterConfig"
    and "stage_b \<equiv> Call_BuildConfigFromFlags '''' kubeconfigEnv"
    and "stage_c \<equiv> Call_BuildConfigFromFlags '''' (home @ ''/.kube/config'')"
  assumes uncached: "client s = None"
  shows "(InClusterConfig env h = Inr cfg
            \<longrightarrow> calls (snd (getClient env s)) = h @ [stage_a, Call_NewForConfig cfg]
              \<and> fst (getClient env s) = NewForConfig env (h @ [stage_a]) cfg)
       \<and> (InClusterConfig env h = Inl ea
          \<and> BuildConfigFromFlags env (h @ [stage_a]) '''' kubeconfigEnv = Inr cfg
            \<longrightarrow> calls (snd (getClient env s)) = h @ [stage_a, stage_b, Call_NewForConfig cfg]
              \<and> fst (getClient env s) = NewForConfig env (h @ [stage_a, stage_b]) cfg)
       \<and> (InClusterConfig env h = Inl ea
          \<and> BuildConfigFromFlags env (h @ [stage_a]) '''' kubeconfigEnv = Inl eb
          \<and> BuildConfigFromFlags env (h @ [stage_a, stage_b]) '''' (home @ ''/.kube/config'') = Inr cfg
            \<longrightarrow> calls (snd (getClient env s)) =
                  h @ [stage_a, stage_b, stage_c, Call_NewForConfig cfg]
              \<and> fst (getClient env s) = NewForConfig env (h @ [stage_a, stage_b, stage_c]) cfg)
       \<and> (InClusterConfig env h = Inl ea
          \<and> BuildConfigFromFlags env (h @ [stage_a]) '''' kubeconfigEnv = Inl eb
          \<and> BuildConfigFromFlags env (h @ [stage_a, stage_b]) '''' (home @ ''/.kube/config'') = Inl ec
            \<longrightarrow> getClient env s =
                  (Inl (Errorf (''Error initializing Kubernetes config: '' @ Error ec)),
                   s\<lparr>calls := h @ [stage_a, stage_b, stage_c]\<rparr>))"
  using uncached
  unfolding h_def kubeconfigEnv_def home_def stage_a_def stage_b_def stage_c_def
  by (simp add: getClient_def newClientset_eq perform_def Let_def split: sum.splits)

text \<open>
  Inside a cluster stage (a) decides; with only the file under the home directory, all
  three stages run and the third decides; with no credentials the chain ends in the error.
\<close>

theorem getClient_stage_order_witness:
  "client fresh = None
   \<and> InClusterConfig env_in_cluster (calls fresh) = Inr (Config 0)
   \<and> getClient env_in_cluster fresh =
       (Inr (Clientset 1),
        \<lparr>client = Some (Clientset 1), calls = [Call_InClusterConfig, Call_NewForConfig (Config 0)]\<rparr>)
   \<and> InClusterConfig env_home_kubeconfig (calls fresh) =
       Inl (Errorf ''unable to load in-cluster configuration'')
   \<and> BuildConfigFromFlags env_home_kubeconfig [Call_InClusterConfig] '''' '''' =
       Inl (Errorf ''invalid configuration'')
   \<and> BuildConfigFromFlags env_home_kubeconfig
         [Call_InClusterConfig, Call_BuildConfigFromFlags '''' ''''] '''' ''/root/.kube/config'' =
       Inr (Config 2)
   \<and> calls (snd (getClient env_home_kubeconfig fresh)) =
       [Call_InClusterConfig, Call_BuildConfigFromFlags '''' '''',
        Call_BuildConfigFromFlags '''' ''/root/.kube/config'', Call_NewForConfig (Config 2)]
   \<and> fst (getClient env_home_kubeconfig fresh) = Inr (Clientset 1)
   \<and> getClient env_no_config fresh =
       (Inl (Errorf ''Error initializing Kubernetes config: invalid configuration''),
        \<lparr>client = None,
         calls = [Call_InClusterConfig, Call_BuildConfigFromFlags '''' '''',
                  Call_BuildConfigFromFlags '''' ''/root/.kube/config'']\<rparr>)"
proof -
  have uncached: "client fresh = None"
    by (simp add: fresh_def)
  note a = getClient_stage_order [OF uncached, where env = env_in_cluster and cfg = "Config 0"]
  note c = getClient_stage_order [OF uncached, where env = env_home_kubeconfig
      and ea = "Errorf ''unable to load in-cluster configuration''" and cfg = "Config 2"
      and eb = "Errorf ''invalid configuration''"]
  note d = getClient_stage_order [OF uncached, where env = env_no_config
      and ea = "Errorf ''unable to load in-cluster configuration''"
      and eb = "Errorf ''invalid configuration''" and ec = "Errorf ''invalid configuration''"]
  have "getClient env_in_cluster fresh =
       (Inr (Clientset 1),
        \<lparr>client = Some (Clientset 1), calls = [Call_InClusterConfig, Call_NewForConfig (Config 0)]\<rparr>)"
    using a getClient_Inr [of env_in_cluster fresh "Clientset 1" "snd (getClient env_in_cluster fresh)"]
    by (cases "getClient env_in_cluster fresh")
       (simp add: env_in_cluster_def fresh_def)
  moreover have "calls (snd (getClient env_home_kubeconfig fresh)) =
       [Call_InClusterConfig, Call_BuildConfigFromFlags '''' '''',
        Call_BuildConfigFromFlags '''' ''/root/.kube/config'', Call_NewForConfig (Config 2)]
     \<and> fst (getClient env_home_kubeconfig fresh) = Inr (Clientset 1)"
    using c by (simp add: env_home_kubeconfig_def env_in_cluster_def fresh_def)
  moreover have "getClient env_no_config fresh =
       (Inl (Errorf ''Error initializing Kubernetes config: invalid configuration''),
        \<lparr>client = None,
         calls = [Call_InClusterConfig, Call_BuildConfigFromFlags '''' '''',
                  Call_BuildConfigFromFlags '''' ''/root/.kube/config'']\<rparr>)"
    using d by (simp add: env_no_config_def env_in_cluster_def fresh_def)
  ultimately show ?thesis
    by (simp add: env_home_kubeconfig_def env_in_cluster_def fresh_def)
qed

subsection \<open>getClient: what is cached\<close>

text \<open>
  C6.  \<open>getClient\<close> stores a client only when it succeeds.  After a call that returns
  an error the stored client is unset, and the next call, whatever the environment then
  answers, starts the chain again at the in-cluster stage.  After a call that returns a
  client with no error, that client is stored; the next call and every call after it return
  the same client with no error and leave the state as it is, so no configuration stage
  runs again.
\<close>

theorem getClient_caches_only_success:
  "(getClient env s = (Inl e, s')
      \<longrightarrow> client s' = None
        \<and> (\<exists>rest. calls (snd (getClient later s')) = calls s' @ Call_InClusterConfig # rest))
   \<and> (getClient env s = (Inr c, s')
      \<longrightarrow> client s' = Some c
        \<and> getClient later s' = (Inr c, s')
        \<and> getClient later (((\<lambda>t. snd (getClient later t)) ^^ n) s') = (Inr c, s'))"
proof (intro conjI impI)
  assume failed: "getClient env s = (Inl e, s')"
  then show "client s' = None"
    by (simp add: getClient_Inl)
  then show "\<exists>rest. calls (snd (getClient later s')) = calls s' @ Call_InClusterConfig # rest"
    by (rule getClient_uncached_starts)
next
  assume "getClient env s = (Inr c, s')"
  then show cached: "client s' = Some c"
    by (rule getClient_Inr)
  then show "getClient later s' = (Inr c, s')"
    by (rule getClient_cached)
  from cached show "getClient later (((\<lambda>t. snd (getClient later t)) ^^ n) s') = (Inr c, s')"
    by (simp add: getClient_cached_again getClient_cached)
qed

text \<open>
  A process that fails for lack of credentials and succeeds on the next call, once the
  in-cluster configuration loads; and a process that has its client and keeps it when the
  credentials are gone.
\<close>

theorem getClient_caches_only_success_witness:
  "getClient env_no_config fresh =
     (Inl (Errorf ''Error initializing Kubernetes config: invalid configuration''),
      \<lparr>client = None,
       calls = [Call_InClusterConfig, Call_BuildConfigFromFlags '''' '''',
                Call_BuildConfigFromFlags '''' ''/root/.kube/config'']\<rparr>)
   \<and> (\<exists>rest. calls (snd (getClient env_in_cluster
          \<lparr>client = None,
           calls = [Call_InClusterConfig, Call_BuildConfigFromFlags '''' '''',
                    Call_BuildConfigFromFlags '''' ''/root/.kube/config'']\<rparr>)) =
        [Call_InClusterConfig, Call_BuildConfigFromFlags '''' '''',
         Call_BuildConfigFromFlags '''' ''/root/.kube/config''] @ Call_InClusterConfig # rest)
   \<and> getClient env_in_cluster
        \<lparr>client = None,
         calls = [Call_InClusterConfig, Call_BuildConfigFromFlags '''' '''',
                  Call_BuildConfigFromFlags '''' ''/root/.kube/config'']\<rparr> =
       (Inr (Clientset 1),
        \<lparr>client = Some (Clientset 1),
         calls = [Call_InClusterConfig, Call_BuildConfigFromFlags '''' '''',
                  Call_BuildConfigFromFlags '''' ''/root/.kube/config'',
                  Call_InClusterConfig, Call_NewForConfig (Config 0)]\<rparr>)
   \<and> getClient env_in_cluster fresh =
       (Inr (Clientset 1),
        \<lparr>client = Some (Clientset 1), calls = [Call_InClusterConfig, Call_NewForConfig (Config 0)]\<rparr>)
   \<and> getClient env_no_config
        \<lparr>client = Some (Clientset 1), calls = [Call_InClusterConfig, Call_NewForConfig (Config 0)]\<rparr> =
       (Inr (Clientset 1),
        \<lparr>client = Some (Clientset 1), calls = [Call_InClusterConfig, Call_NewForConfig (Config 0)]\<rparr>)"
proof -
  note failed = getClient_no_config_fresh
  note succeeded = getClient_in_cluster_fresh
  from getClient_caches_only_success [where env = env_no_config and s = fresh
      and e = "Errorf ''Error initializing Kubernetes config: invalid configuration''"
      and later = env_in_cluster
      and s' = "\<lparr>client = None,
                  calls = [Call_InClusterConfig, Call_BuildConfigFromFlags '''' '''',
                           Call_BuildConfigFromFlags '''' ''/root/.kube/config'']\<rparr>"]
    failed
  have restart: "\<exists>rest. calls (snd (getClient env_in_cluster
          \<lparr>client = None,
           calls = [Call_InClusterConfig, Call_BuildConfigFromFlags '''' '''',
                    Call_BuildConfigFromFlags '''' ''/root/.kube/config'']\<rparr>)) =
        [Call_InClusterConfig, Call_BuildConfigFromFlags '''' '''',
         Call_BuildConfigFromFlags '''' ''/root/.kube/config''] @ Call_InClusterConfig # rest"
    by simp
  have retry: "getClient env_in_cluster
        \<lparr>client = None,
         calls = [Call_InClusterConfig, Call_BuildConfigFromFlags '''' '''',
                  Call_BuildConfigFromFlags '''' ''/root/.kube/config'']\<rparr> =
       (Inr (Clientset 1),
        \<lparr>client = Some (Clientset 1),
         calls = [Call_InClusterConfig, Call_BuildConfigFromFlags '''' '''',
                  Call_BuildConfigFromFlags '''' ''/root/.kube/config'',
                  Call_InClusterConfig, Call_NewForConfig (Config 0)]\<rparr>)"
    by (simp add: getClient_def newClientset_eq perform_def env_in_cluster_def)
  from getClient_caches_only_success [where env = env_in_cluster and s = fresh
      and c = "Clientset 1" and later = env_no_config and n = 0
      and s' = "\<lparr>client = Some (Clientset 1),
                  calls = [Call_InClusterConfig, Call_NewForConfig (Config 0)]\<rparr>"]
    succeeded
  have again: "getClient env_no_config
        \<lparr>client = Some (Clientset 1), calls = [Call_InClusterConfig, Call_NewForConfig (Config 0)]\<rparr> =
       (Inr (Clientset 1),
        \<lparr>client = Some (Clientset 1), calls = [Call_InClusterConfig, Call_NewForConfig (Config 0)]\<rparr>)"
    by simp
  from failed restart retry succeeded again show ?thesis
    by (intro conjI)
qed

subsection \<open>GetK8sWorkload: the outcomes of a resolve\<close>



subsection \<open>GetPods\<close>

text \<open>
  C8.  \<open>GetPods\<close> sends nil pods with the error when the client acquisition fails, and
  when the list call fails; when the list call succeeds it sends the listed pods with a nil
  error.  The list call is made in the namespace of the workload, with the label selector
  that \<^verbatim>\<open>FormatLabelSelector\<close> builds from the pod selector of the workload.
\<close>

theorem GetPods_message:
  fixes env workload
  defines "selector \<equiv> FormatLabelSelector env (PodSelector workload)"
  shows "(getClient env s = (Inl err, s1)
            \<longrightarrow> GetPods env channel workload s = (channel @ [\<lparr>Pods = [], Err = Some err\<rparr>], s1))
       \<and> (getClient env s = (Inr c, s1)
          \<and> Pods_List env (calls s1) c (Namespace workload) selector = Inl err
            \<longrightarrow> GetPods env channel workload s =
                  (channel @ [\<lparr>Pods = [], Err = Some err\<rparr>],
                   s1\<lparr>calls := calls s1 @ [Call_Pods_List c (Namespace workload) selector]\<rparr>))
       \<and> (getClient env s = (Inr c, s1)
          \<and> Pods_List env (calls s1) c (Namespace workload) selector = Inr items
            \<longrightarrow> GetPods env channel workload s =
                  (channel @ [\<lparr>Pods = items, Err = None\<rparr>],
                   s1\<lparr>calls := calls s1 @ [Call_Pods_List c (Namespace workload) selector]\<rparr>))"
  unfolding selector_def
  by (simp add: GetPods_def perform_def Let_def)

text \<open>No credentials, a refused list call, and two pods listed.\<close>

theorem GetPods_message_witness:
  "GetPods env_no_config [] agents fresh =
     ([\<lparr>Pods = [],
        Err = Some (Errorf ''Error initializing Kubernetes config: invalid configuration'')\<rparr>],
      \<lparr>client = None,
       calls = [Call_InClusterConfig, Call_BuildConfigFromFlags '''' '''',
                Call_BuildConfigFromFlags '''' ''/root/.kube/config'']\<rparr>)
   \<and> GetPods env_forbidden [] agents fresh =
       ([\<lparr>Pods = [], Err = Some (Errorf ''forbidden'')\<rparr>],
        \<lparr>client = Some (Clientset 1),
         calls = [Call_InClusterConfig, Call_NewForConfig (Config 0),
                  Call_Pods_List (Clientset 1) ''ns'' ''app=azp-agent'']\<rparr>)
   \<and> GetPods env_in_cluster [] agents fresh =
       ([\<lparr>Pods = [Pod ''agents-0'', Pod ''agents-1''], Err = None\<rparr>],
        \<lparr>client = Some (Clientset 1),
         calls = [Call_InClusterConfig, Call_NewForConfig (Config 0),
                  Call_Pods_List (Clientset 1) ''ns'' ''app=azp-agent'']\<rparr>)"
proof -
  note failed = getClient_no_config_fresh
  note acquired' = getClient_forbidden_fresh
  note acquired = getClient_in_cluster_fresh
  have "GetPods env_no_config [] agents fresh =
     ([\<lparr>Pods = [],
        Err = Some (Errorf ''Error initializing Kubernetes config: invalid configuration'')\<rparr>],
      \<lparr>client = None,
       calls = [Call_InClusterConfig, Call_BuildConfigFromFlags '''' '''',
                Call_BuildConfigFromFlags '''' ''/root/.kube/config'']\<rparr>)"
    using GetPods_message [where env = env_no_config and s = fresh and channel = "[]"
        and workload = agents] failed
    by simp
  moreover have "GetPods env_forbidden [] agents fresh =
       ([\<lparr>Pods = [], Err = Some (Errorf ''forbidden'')\<rparr>],
        \<lparr>client = Some (Clientset 1),
         calls = [Call_InClusterConfig, Call_NewForConfig (Config 0),
                  Call_Pods_List (Clientset 1) ''ns'' ''app=azp-agent'']\<rparr>)"
    using GetPods_message [where env = env_forbidden and s = fresh and channel = "[]"
        and workload = agents and c = "Clientset 1" and err = "Errorf ''forbidden''"] acquired'
    by (simp add: env_forbidden_def env_in_cluster_def agents_def)
  moreover have "GetPods env_in_cluster [] agents fresh =
       ([\<lparr>Pods = [Pod ''agents-0'', Pod ''agents-1''], Err = None\<rparr>],
        \<lparr>client = Some (Clientset 1),
         calls = [Call_InClusterConfig, Call_NewForConfig (Config 0),
                  Call_Pods_List (Clientset 1) ''ns'' ''app=azp-agent'']\<rparr>)"
    using GetPods_message [where env = env_in_cluster and s = fresh and channel = "[]"
        and workload = agents and c = "Clientset 1"
        and items = "[Pod ''agents-0'', Pod ''agents-1'']"] acquired
    by (simp add: env_in_cluster_def agents_def)
  ultimately show ?thesis
    by simp
qed

subsection \<open>Scale: the workload descriptor\<close>

text \<open>
  C9.  \<open>Scale\<close> leaves the workload it is given as it was: its kind, namespace, name and
  pod selector are the same after the call, on every path.  The replica count is written
  into the scale value fetched during the call, which is not the workload.
\<close>

theorem Scale_leaves_workload:
  "snd (fst (Scale env resource replicas s)) = resource
   \<and> Kind (snd (fst (Scale env resource replicas s))) = Kind resource
   \<and> Namespace (snd (fst (Scale env resource replicas s))) = Namespace resource
   \<and> Name (snd (fst (Scale env resource replicas s))) = Name resource
   \<and> PodSelector (snd (fst (Scale env resource replicas s))) = PodSelector resource"
proof -
  have "snd (fst (Scale env resource replicas s)) = resource"
    by (simp add: Scale_def perform_def Let_def split: prod.splits sum.splits)
  then show ?thesis
    by simp
qed

subsection \<open>GetEnvValue\<close>

text \<open>
  C10.  \<open>GetEnvValue\<close> returns the value with a nil error exactly when the value is not
  empty.  Otherwise it returns the empty string and an error whose text ends in the name of
  the variable; \<^verbatim>\<open>ValueFrom\<close> is never looked at, so a variable that has only an
  indirect source is an error.
\<close>

theorem GetEnvValue_value_or_error:
  "(GetEnvValue v = (var_Value v, None)) = (var_Value v \<noteq> '''')
   \<and> (var_Value v = ''''
        \<longrightarrow> GetEnvValue v =
              ('''', Some (Errorf (''Error getting value for environment variable '' @ var_Name v))))"
  by (simp add: GetEnvValue_def)

text \<open>A variable with only an indirect source, and a variable with a value.\<close>

theorem GetEnvValue_value_or_error_witness:
  "var_Value \<lparr>var_Name = ''AZP_TOKEN'', var_Value = '''', var_ValueFrom = Some ''secretKeyRef''\<rparr> = ''''
   \<and> GetEnvValue \<lparr>var_Name = ''AZP_TOKEN'', var_Value = '''', var_ValueFrom = Some ''secretKeyRef''\<rparr> =
       ('''', Some (Errorf ''Error getting value for environment variable AZP_TOKEN''))
   \<and> GetEnvValue \<lparr>var_Name = ''AZP_POOL'', var_Value = ''Default'', var_ValueFrom = None\<rparr> =
       (''Default'', None)"
  using GetEnvValue_value_or_error
      [of "\<lparr>var_Name = ''AZP_TOKEN'', var_Value = '''', var_ValueFrom = Some ''secretKeyRef''\<rparr>"]
    GetEnvValue_value_or_error
      [of "\<lparr>var_Name = ''AZP_POOL'', var_Value = ''Default'', var_ValueFrom = None\<rparr>"]
  by simp

end
